theory Spec2Isabelle
  imports Main
begin

section \<open>Data model\<close>

text \<open>
  A JSON object is read by field name; a field that is missing reads as \<open>undefined\<close>,
  here \<open>None\<close>. The browser's \<open>localStorage\<close> is a map from keys to strings, where
  \<open>getItem\<close> of a missing key is \<open>null\<close>, here \<open>None\<close>.
\<close>

type_synonym json = "string \<rightharpoonup> string"

type_synonym localStorage = "string \<rightharpoonup> string"

text \<open>The response envelope \<open>ApiResponse\<close> of \<open>authService.ts\<close>. Every response body is
  taken to be such an envelope; \<open>data\<close> is \<open>None\<close> when the field is missing or null.\<close>

record ApiResponse =
  success :: bool
  message :: string
  data :: "json option"

text \<open>
  The axios request configuration, with the fields the clients read or write: the
  \<open>Authorization\<close> header and the mark \<open>_retry\<close> that the response interceptor sets.
\<close>

record request =
  url :: string
  http_method :: string
  req_data :: "json option"
  Authorization :: "string option"
  retry :: bool

text \<open>
  What comes back for a request: a response with a status and an envelope, or nothing
  (a network failure). The backend is any function from the requests put on the wire so
  far, the newest last, to what comes back for the newest one.
\<close>

datatype http_response = Response nat ApiResponse | NetworkFailure

type_synonym server = "request list \<Rightarrow> http_response"

text \<open>
  A rejected promise carries either an axios error, with \<open>error.config\<close> and
  \<open>error.response?.status\<close>, or a plain \<open>Error\<close> with its message.
\<close>

datatype error = AxiosError request "nat option" | Error string

text \<open>
  The state outside the client: the token storage, \<open>window.location.href\<close>, and the
  requests that were put on the wire, in order.
\<close>

record world =
  storage :: localStorage
  location :: string
  requests :: "request list"

text \<open>The session state holder \<open>AuthProvider\<close>: \<open>user\<close> and \<open>loading\<close>.\<close>

record auth_state =
  user :: "json option"
  loading :: bool

section \<open>Storage and string coercions\<close>

definition getItem :: "localStorage \<Rightarrow> string \<Rightarrow> string option" where
  "getItem ls k = ls k"

definition setItem :: "localStorage \<Rightarrow> string \<Rightarrow> string \<Rightarrow> localStorage" where
  "setItem ls k v = ls(k \<mapsto> v)"

definition removeItem :: "localStorage \<Rightarrow> string \<Rightarrow> localStorage" where
  "removeItem ls k = ls(k := None)"

text \<open>JavaScript truthiness of a \<open>string | null\<close>: \<open>null\<close> and the empty string are falsy.\<close>

definition truthy :: "string option \<Rightarrow> bool" where
  "truthy v = (case v of None \<Rightarrow> False | Some s \<Rightarrow> s \<noteq> [])"

text \<open>A \<open>string | null\<close> inside a template literal, and a \<open>string | undefined\<close> stored by
  \<open>setItem\<close>, which stores \<open>String(value)\<close>.\<close>

definition str_null :: "string option \<Rightarrow> string" where
  "str_null v = (case v of None \<Rightarrow> ''null'' | Some s \<Rightarrow> s)"

definition str_undefined :: "string option \<Rightarrow> string" where
  "str_undefined v = (case v of None \<Rightarrow> ''undefined'' | Some s \<Rightarrow> s)"

definition removeTokens :: "localStorage \<Rightarrow> localStorage" where
  "removeTokens ls = removeItem (removeItem ls ''accessToken'') ''refreshToken''"

definition getAccessToken :: "localStorage \<Rightarrow> string option" where
  "getAccessToken ls = getItem ls ''accessToken''"

section \<open>The auth service's client\<close>

text \<open>\<open>apiClient.post(url, data)\<close> and \<open>apiClient.get(url)\<close> build a configuration with no
  \<open>Authorization\<close> header and no mark.\<close>

definition post :: "string \<Rightarrow> json option \<Rightarrow> request" where
  "post u d = \<lparr>url = u, http_method = ''post'', req_data = d, Authorization = None, retry = False\<rparr>"

definition get :: "string \<Rightarrow> request" where
  "get u = \<lparr>url = u, http_method = ''get'', req_data = None, Authorization = None, retry = False\<rparr>"

text \<open>The request interceptor of \<open>authService.ts\<close>.\<close>

definition request_interceptor :: "localStorage \<Rightarrow> request \<Rightarrow> request" where
  "request_interceptor ls config =
     (let token = getItem ls ''accessToken''
      in if truthy token
         then config\<lparr>Authorization := Some (''Bearer '' @ str_null token)\<rparr>
         else config)"

text \<open>
  \<open>apiClient n srv config w\<close> is the call \<open>apiClient(config)\<close>: the request interceptor,
  the request on the wire, and for a failure the response interceptor's error handler
  \<open>response_rejected\<close>, which may call \<open>authService.refreshToken\<close>, which sends through
  \<open>apiClient\<close> again. axios resolves a status from 200 to 299 and rejects every other.
  The number \<open>n\<close> bounds how deep requests nest inside error handlers; \<open>None\<close> means the
  bound was reached before the promise settled. A request that is answered with anything
  but an unmarked 401 settles with any \<open>n\<close> above zero.

  The configuration that axios hands to the error handler as \<open>error.config\<close> is the one
  that left the request interceptor, and a configuration passed to \<open>apiClient\<close> again keeps
  its \<open>_retry\<close> mark and runs through the request interceptor once more.

  In \<open>response_rejected\<close> the retry is \<open>return apiClient(originalRequest)\<close> with no
  \<open>await\<close>, so a rejected retry is not caught by the \<open>catch\<close> around the refresh.
\<close>

fun apiClient :: "nat \<Rightarrow> server \<Rightarrow> request \<Rightarrow> world \<Rightarrow> ((error + ApiResponse) \<times> world) option"
  and response_rejected ::
    "nat \<Rightarrow> server \<Rightarrow> request \<Rightarrow> nat option \<Rightarrow> world \<Rightarrow> ((error + ApiResponse) \<times> world) option"
  and refreshToken :: "nat \<Rightarrow> server \<Rightarrow> world \<Rightarrow> ((error + unit) \<times> world) option"
where
  "apiClient 0 srv config w = None"
| "apiClient (Suc n) srv config w =
     (let sent = request_interceptor (storage w) config;
          w1 = w\<lparr>requests := requests w @ [sent]\<rparr>
      in case srv (requests w1) of
           Response status body \<Rightarrow>
             if 200 \<le> status \<and> status < 300 then Some (Inr body, w1)
             else response_rejected n srv sent (Some status) w1
         | NetworkFailure \<Rightarrow> response_rejected n srv sent None w1)"
| "response_rejected n srv originalRequest status w =
     (if status = Some 401 \<and> \<not> retry originalRequest then
        (case refreshToken n srv w of
           None \<Rightarrow> None
         | Some (Inr u, w2) \<Rightarrow>
             apiClient n srv
               (originalRequest\<lparr>retry := True,
                  Authorization := Some (''Bearer '' @ str_null (getItem (storage w2) ''accessToken''))\<rparr>)
               w2
         | Some (Inl refreshError, w2) \<Rightarrow>
             Some (Inl refreshError,
                   w2\<lparr>storage := removeTokens (storage w2), location := ''/login''\<rparr>))
      else Some (Inl (AxiosError originalRequest status), w))"
| "refreshToken n srv w =
     (let refreshToken = getItem (storage w) ''refreshToken''
      in if \<not> truthy refreshToken then Some (Inl (Error ''No refresh token available''), w)
         else
           (case apiClient n srv
                   (post ''/auth/refresh'' (Some [''refreshToken'' \<mapsto> str_null refreshToken])) w of
              None \<Rightarrow> None
            | Some (Inl e, w1) \<Rightarrow> Some (Inl e, w1)
            | Some (Inr response, w1) \<Rightarrow>
                (case data response of
                   Some d \<Rightarrow>
                     if success response
                     then Some (Inr (),
                            w1\<lparr>storage :=
                                 setItem
                                   (setItem (storage w1) ''accessToken''
                                      (str_undefined (d ''accessToken'')))
                                   ''refreshToken'' (str_undefined (d ''refreshToken''))\<rparr>)
                     else Some (Inr (), w1)
                 | None \<Rightarrow> Some (Inr (), w1))))"

text \<open>\<open>authService.logout\<close>: the failure of the backend call is caught and logged, and
  \<open>finally\<close> removes the tokens.\<close>

definition logout :: "nat \<Rightarrow> server \<Rightarrow> world \<Rightarrow> world option" where
  "logout n srv w =
     (case apiClient n srv (post ''/auth/logout'' None) w of
        None \<Rightarrow> None
      | Some (Inr response, w1) \<Rightarrow> Some (w1\<lparr>storage := removeTokens (storage w1)\<rparr>)
      | Some (Inl e, w1) \<Rightarrow> Some (w1\<lparr>storage := removeTokens (storage w1)\<rparr>))"

text \<open>\<open>authService.getProfile\<close>.\<close>

definition getProfile :: "nat \<Rightarrow> server \<Rightarrow> world \<Rightarrow> ((error + json) \<times> world) option" where
  "getProfile n srv w =
     (case apiClient n srv (get ''/auth/profile'') w of
        None \<Rightarrow> None
      | Some (Inl e, w1) \<Rightarrow> Some (Inl e, w1)
      | Some (Inr response, w1) \<Rightarrow>
          (case data response of
             Some d \<Rightarrow>
               if success response then Some (Inr d, w1)
               else Some (Inl (Error ''Failed to get user profile''), w1)
           | None \<Rightarrow> Some (Inl (Error ''Failed to get user profile''), w1)))"

section \<open>The session state holder\<close>

text \<open>The state that \<open>useState\<close> gives \<open>AuthProvider\<close> when it mounts.\<close>

definition initial_auth_state :: auth_state where
  "initial_auth_state = \<lparr>user = None, loading = True\<rparr>"

text \<open>\<open>initializeAuth\<close>, run once when \<open>AuthProvider\<close> mounts.\<close>

definition initializeAuth ::
  "nat \<Rightarrow> server \<Rightarrow> world \<times> auth_state \<Rightarrow> (world \<times> auth_state) option" where
  "initializeAuth n srv ws =
     (case ws of (w, s) \<Rightarrow>
        (let token = getAccessToken (storage w)
         in if truthy token then
              (case getProfile n srv w of
                 None \<Rightarrow> None
               | Some (Inr userProfile, w1) \<Rightarrow>
                   Some (w1, s\<lparr>user := Some userProfile, loading := False\<rparr>)
               | Some (Inl e, w1) \<Rightarrow>
                   Some (w1\<lparr>storage := removeTokens (storage w1)\<rparr>, s\<lparr>loading := False\<rparr>))
            else Some (w, s\<lparr>loading := False\<rparr>)))"

text \<open>
  \<open>AuthProvider\<close>'s \<open>logout\<close> calls \<open>authService.logout()\<close> without awaiting it and then
  \<open>setUser(null)\<close>: the session state is set whether or not the service call settles.
\<close>

definition AuthProvider_logout ::
  "nat \<Rightarrow> server \<Rightarrow> world \<times> auth_state \<Rightarrow> world option \<times> auth_state" where
  "AuthProvider_logout n srv ws = (case ws of (w, s) \<Rightarrow> (logout n srv w, s\<lparr>user := None\<rparr>))"

section \<open>The portfolio service's client\<close>

text \<open>The request interceptor of the portfolio service; its client has no response
  interceptor, so a rejected response goes to the caller as it is.\<close>

definition portfolio_request_interceptor :: "localStorage \<Rightarrow> request \<Rightarrow> request" where
  "portfolio_request_interceptor ls config =
     (let token = getItem ls ''accessToken''
      in if truthy token
         then config\<lparr>Authorization := Some (''Bearer '' @ str_null token)\<rparr>
         else config)"

definition portfolio_apiClient ::
  "server \<Rightarrow> request \<Rightarrow> world \<Rightarrow> (error + ApiResponse) \<times> world" where
  "portfolio_apiClient srv config w =
     (let sent = portfolio_request_interceptor (storage w) config;
          w1 = w\<lparr>requests := requests w @ [sent]\<rparr>
      in case srv (requests w1) of
           Response status body \<Rightarrow>
             if 200 \<le> status \<and> status < 300 then (Inr body, w1)
             else (Inl (AxiosError sent (Some status)), w1)
         | NetworkFailure \<Rightarrow> (Inl (AxiosError sent None), w1))"

section \<open>Notions for stating the properties\<close>

text \<open>What axios makes of an answer when no error handler steps in: a status from 200 to
  299 resolves with the body, every other answer rejects.\<close>

definition settle :: "request \<Rightarrow> http_response \<Rightarrow> error + ApiResponse" where
  "settle sent resp =
     (case resp of
        Response status body \<Rightarrow>
          if 200 \<le> status \<and> status < 300 then Inr body
          else Inl (AxiosError sent (Some status))
      | NetworkFailure \<Rightarrow> Inl (AxiosError sent None))"

text \<open>The request that \<open>authService.refreshToken\<close> puts on the wire for the stored
  refresh token \<open>rt\<close>.\<close>

definition refresh_request :: "localStorage \<Rightarrow> string \<Rightarrow> request" where
  "refresh_request ls rt =
     request_interceptor ls (post ''/auth/refresh'' (Some [''refreshToken'' \<mapsto> rt]))"

text \<open>A backend that answers the first request with the first entry of a script, the
  second with the second, and gives no answer once the script is used up.\<close>

definition scripted :: "http_response list \<Rightarrow> server" where
  "scripted rs l =
     (if l \<noteq> [] \<and> length l \<le> length rs then rs ! (length l - 1) else NetworkFailure)"

text \<open>What can be seen after a call: its result, the two stored tokens, the location and
  the requests on the wire.\<close>

definition tokens :: "world \<Rightarrow> string option \<times> string option" where
  "tokens w = (storage w ''accessToken'', storage w ''refreshToken'')"

definition view ::
  "('a \<times> world) option \<Rightarrow>
   ('a \<times> (string option \<times> string option) \<times> string \<times> request list) option" where
  "view x = map_option (\<lambda>(r, w). (r, tokens w, location w, requests w)) x"

subsection \<open>Sample states, bodies and requests\<close>

definition w0 :: world where
  "w0 = \<lparr>storage = [''accessToken'' \<mapsto> ''old'', ''refreshToken'' \<mapsto> ''r0''],
         location = ''/dashboard'', requests = []\<rparr>"

definition w_no_refresh :: world where
  "w_no_refresh = \<lparr>storage = [''accessToken'' \<mapsto> ''old''],
         location = ''/dashboard'', requests = []\<rparr>"

definition w_anonymous :: world where
  "w_anonymous = \<lparr>storage = Map.empty, location = ''/dashboard'', requests = []\<rparr>"

definition fail_body :: ApiResponse where
  "fail_body = \<lparr>success = False, message = ''denied'', data = None\<rparr>"

definition tokens_body :: ApiResponse where
  "tokens_body = \<lparr>success = True, message = ''refreshed'',
      data = Some [''accessToken'' \<mapsto> ''new'', ''refreshToken'' \<mapsto> ''r1'']\<rparr>"

definition list_body :: ApiResponse where
  "list_body = \<lparr>success = True, message = ''ok'', data = Some [''id'' \<mapsto> ''7'']\<rparr>"

definition portfolios_old :: request where
  "portfolios_old = \<lparr>url = ''/portfolios'', http_method = ''get'', req_data = None,
      Authorization = Some ''Bearer old'', retry = False\<rparr>"

definition portfolios_new :: request where
  "portfolios_new = \<lparr>url = ''/portfolios'', http_method = ''get'', req_data = None,
      Authorization = Some ''Bearer new'', retry = True\<rparr>"

definition refresh_old :: request where
  "refresh_old = \<lparr>url = ''/auth/refresh'', http_method = ''post'',
      req_data = Some [''refreshToken'' \<mapsto> ''r0''],
      Authorization = Some ''Bearer old'', retry = False\<rparr>"

definition logout_old :: request where
  "logout_old = \<lparr>url = ''/auth/logout'', http_method = ''post'', req_data = None,
      Authorization = Some ''Bearer old'', retry = False\<rparr>"

definition profile_old :: request where
  "profile_old = \<lparr>url = ''/auth/profile'', http_method = ''get'', req_data = None,
      Authorization = Some ''Bearer old'', retry = False\<rparr>"

text \<open>A backend that answers every request 401, a storage that holds a refresh token
  only, and the requests seen on the wire from that storage.\<close>

definition always_401 :: server where
  "always_401 l = Response 401 fail_body"





section \<open>Stepping through the client\<close>

text \<open>The equations of the client are unfolded by hand, one call at a time.\<close>

declare apiClient.simps [simp del] response_rejected.simps [simp del] refreshToken.simps [simp del]

lemmas eval_defs =
  apiClient.simps response_rejected.simps refreshToken.simps
  request_interceptor_def getItem_def setItem_def removeItem_def removeTokens_def
  truthy_def str_null_def str_undefined_def post_def get_def Let_def
  scripted_def tokens_def view_def w0_def w_no_refresh_def w_anonymous_def
  fail_body_def tokens_body_def list_body_def portfolios_old_def portfolios_new_def
  refresh_old_def logout_old_def profile_old_def refresh_request_def

lemma request_interceptor_retry [simp]: "retry (request_interceptor ls c) = retry c"
  by (simp add: request_interceptor_def Let_def)

lemma request_interceptor_url [simp]: "url (request_interceptor ls c) = url c"
  by (simp add: request_interceptor_def Let_def)

lemma response_rejected_passes:
  "status \<noteq> Some 401 \<or> retry r \<Longrightarrow>
   response_rejected n srv r status w = Some (Inl (AxiosError r status), w)"
  by (auto simp: response_rejected.simps)

lemma apiClient_401:
  assumes "sent = request_interceptor (storage w) config"
    and "srv (requests w @ [sent]) = Response 401 b"
  shows "apiClient (Suc n) srv config w =
         response_rejected n srv sent (Some 401) (w\<lparr>requests := requests w @ [sent]\<rparr>)"
  using assms by (simp add: apiClient.simps Let_def)

lemma apiClient_not_401:
  assumes "sent = request_interceptor (storage w) config"
    and "\<forall>b. srv (requests w @ [sent]) \<noteq> Response 401 b"
  shows "apiClient (Suc n) srv config w =
    Some (settle sent (srv (requests w @ [sent])), w\<lparr>requests := requests w @ [sent]\<rparr>)"
  using assms
  by (auto simp add: apiClient.simps response_rejected.simps settle_def Let_def
        split: http_response.splits)

lemma apiClient_marked:
  assumes "sent = request_interceptor (storage w) config" and "retry config"
  shows "apiClient (Suc n) srv config w =
    Some (settle sent (srv (requests w @ [sent])), w\<lparr>requests := requests w @ [sent]\<rparr>)"
  using assms
  by (auto simp add: apiClient.simps response_rejected.simps settle_def Let_def
        split: http_response.splits)

lemma refreshToken_absent:
  "\<not> truthy (storage w ''refreshToken'') \<Longrightarrow>
   refreshToken n srv w = Some (Inl (Error ''No refresh token available''), w)"
  by (simp add: refreshToken.simps getItem_def)

lemma refreshToken_present:
  assumes "storage w ''refreshToken'' = Some rt" and "rt \<noteq> []"
  shows "refreshToken n srv w =
    (case apiClient n srv (post ''/auth/refresh'' (Some [''refreshToken'' \<mapsto> rt])) w of
       None \<Rightarrow> None
     | Some (Inl e, w1) \<Rightarrow> Some (Inl e, w1)
     | Some (Inr response, w1) \<Rightarrow>
         (case data response of
            Some d \<Rightarrow>
              if success response
              then Some (Inr (),
                     w1\<lparr>storage :=
                          setItem
                            (setItem (storage w1) ''accessToken''
                               (str_undefined (d ''accessToken'')))
                            ''refreshToken'' (str_undefined (d ''refreshToken''))\<rparr>)
              else Some (Inr (), w1)
          | None \<Rightarrow> Some (Inr (), w1)))"
  using assms
  by (simp add: refreshToken.simps getItem_def truthy_def str_null_def)

lemma refresh_failure_tears_down:
  assumes "\<not> retry r" and "refreshToken n srv w = Some (Inl e, w2)"
  shows "response_rejected n srv r (Some 401) w =
         Some (Inl e, w2\<lparr>storage := removeTokens (storage w2), location := ''/login''\<rparr>)"
  using assms by (simp add: response_rejected.simps)

lemma refresh_success_retries:
  assumes "\<not> retry r" and "refreshToken n srv w = Some (Inr u, w2)"
  shows "response_rejected n srv r (Some 401) w =
         apiClient n srv
           (r\<lparr>retry := True,
              Authorization := Some (''Bearer '' @ str_null (storage w2 ''accessToken''))\<rparr>) w2"
  using assms by (simp add: response_rejected.simps getItem_def)

lemma removeTokens_cleared:
  "removeTokens ls ''accessToken'' = None \<and> removeTokens ls ''refreshToken'' = None"
  by (simp add: removeTokens_def removeItem_def)

lemma removeTokens_idem: "removeTokens (removeTokens ls) = removeTokens ls"
  by (simp add: removeTokens_def removeItem_def)

lemma refresh_and_retry_flow:
  assumes unmarked: "\<not> retry config"
    and sent: "sent = request_interceptor (storage w) config"
    and first: "srv (requests w @ [sent]) = Response 401 b1"
    and token: "storage w ''refreshToken'' = Some rt" "rt \<noteq> []"
    and rreq: "rreq = request_interceptor (storage w)
                 (post ''/auth/refresh'' (Some [''refreshToken'' \<mapsto> rt]))"
    and second: "srv (requests w @ [sent, rreq]) = Response st2 b2" "200 \<le> st2" "st2 < 300"
    and envelope: "success b2" "data b2 = Some d"
    and again: "again = sent\<lparr>retry := True,
                  Authorization := Some (''Bearer '' @ str_undefined (d ''accessToken''))\<rparr>"
    and w': "w' = w\<lparr>storage := (storage w)(''accessToken'' \<mapsto> str_undefined (d ''accessToken''),
                                   ''refreshToken'' \<mapsto> str_undefined (d ''refreshToken'')),
                  requests := requests w @ [sent, rreq, again]\<rparr>"
  shows "apiClient (Suc (Suc n)) srv config w = Some (settle again (srv (requests w')), w')"
proof -
  let ?w1 = "w\<lparr>requests := requests w @ [sent]\<rparr>"
  let ?w2 = "w\<lparr>requests := requests w @ [sent, rreq]\<rparr>"
  let ?w3 = "w\<lparr>storage := (storage w)(''accessToken'' \<mapsto> str_undefined (d ''accessToken''),
                                   ''refreshToken'' \<mapsto> str_undefined (d ''refreshToken'')),
                requests := requests w @ [sent, rreq]\<rparr>"
  have r1: "apiClient (Suc n) srv (post ''/auth/refresh'' (Some [''refreshToken'' \<mapsto> rt])) ?w1
            = Some (Inr b2, ?w2)"
    using second rreq by (simp add: apiClient.simps Let_def)
  have r2: "refreshToken (Suc n) srv ?w1 = Some (Inr (), ?w3)"
    using r1 token envelope refreshToken_present [of ?w1 rt "Suc n" srv]
    by (simp add: setItem_def)
  have again_fix: "request_interceptor (storage ?w3) again = again"
    using again by (simp add: request_interceptor_def Let_def getItem_def truthy_def str_null_def)
  have r3: "apiClient (Suc n) srv again ?w3 = Some (settle again (srv (requests w')), w')"
    using again_fix again w' apiClient_marked [of again ?w3 again n srv] by simp
  have "response_rejected (Suc n) srv sent (Some 401) ?w1 =
        apiClient (Suc n) srv
           (sent\<lparr>retry := True,
              Authorization := Some (''Bearer '' @ str_null (storage ?w3 ''accessToken''))\<rparr>) ?w3"
    using unmarked sent by (intro refresh_success_retries [OF _ r2]) simp
  then have r4: "response_rejected (Suc n) srv sent (Some 401) ?w1
            = Some (settle again (srv (requests w')), w')"
    using r3 again by (simp add: str_null_def)
  show ?thesis
    using apiClient_401 [of sent w config srv b1 "Suc n"] sent first r4 by simp
qed

lemma refresh_request_unmarked: "\<not> retry (refresh_request ls rt)"
  by (simp add: refresh_request_def post_def)

lemma nested_refresh_chain:
  assumes "storage w ''refreshToken'' = Some rt" "rt \<noteq> []"
    and "\<forall>j<k. \<exists>b. srv (requests w @ replicate (Suc j) (refresh_request (storage w) rt))
                    = Response 401 b"
    and "settle (refresh_request (storage w) rt)
           (srv (requests w @ replicate (Suc k) (refresh_request (storage w) rt))) = Inl e"
    and "e \<noteq> AxiosError (refresh_request (storage w) rt) (Some 401)"
  shows "refreshToken (Suc k + n) srv w =
         Some (Inl e,
               if k = 0
               then w\<lparr>requests := requests w @ replicate (Suc k) (refresh_request (storage w) rt)\<rparr>
               else w\<lparr>storage := removeTokens (storage w), location := ''/login'',
                      requests := requests w @ replicate (Suc k) (refresh_request (storage w) rt)\<rparr>)"
  using assms
proof (induction k arbitrary: w)
  case 0
  let ?P = "post ''/auth/refresh'' (Some [''refreshToken'' \<mapsto> rt])"
  let ?R = "refresh_request (storage w) rt"
  let ?w1 = "w\<lparr>requests := requests w @ [?R]\<rparr>"
  have R: "?R = request_interceptor (storage w) ?P"
    by (simp add: refresh_request_def)
  from "0.prems"(4,5) have ne: "\<forall>b. srv (requests w @ [?R]) \<noteq> Response 401 b"
    by (auto simp: settle_def split: if_splits)
  have "apiClient (Suc n) srv ?P w = Some (settle ?R (srv (requests w @ [?R])), ?w1)"
    using apiClient_not_401 [of ?R w ?P srv n] R ne by simp
  then have "apiClient (Suc n) srv ?P w = Some (Inl e, ?w1)"
    using "0.prems"(4) by simp
  then show ?case
    using refreshToken_present [OF "0.prems"(1,2), of "Suc n" srv] by simp
next
  case (Suc k)
  let ?P = "post ''/auth/refresh'' (Some [''refreshToken'' \<mapsto> rt])"
  let ?R = "refresh_request (storage w) rt"
  let ?w1 = "w\<lparr>requests := requests w @ [?R]\<rparr>"
  let ?wk = "if k = 0 then ?w1\<lparr>requests := requests ?w1 @ replicate (Suc k) ?R\<rparr>
               else ?w1\<lparr>storage := removeTokens (storage ?w1), location := ''/login'',
                      requests := requests ?w1 @ replicate (Suc k) ?R\<rparr>"
  have R: "?R = request_interceptor (storage w) ?P"
    by (simp add: refresh_request_def)
  have app: "\<And>m. (requests w @ [?R]) @ replicate m ?R = requests w @ replicate (Suc m) ?R"
    by simp
  have st1: "storage ?w1 = storage w" "requests ?w1 = requests w @ [?R]"
    by simp_all
  have inner: "refreshToken (Suc k + n) srv ?w1 =
      Some (Inl e,
        if k = 0
        then ?w1\<lparr>requests := requests ?w1 @ replicate (Suc k) (refresh_request (storage ?w1) rt)\<rparr>
        else ?w1\<lparr>storage := removeTokens (storage ?w1), location := ''/login'',
               requests := requests ?w1 @ replicate (Suc k) (refresh_request (storage ?w1) rt)\<rparr>)"
  proof (rule Suc.IH)
    show "storage ?w1 ''refreshToken'' = Some rt" using Suc.prems(1) by simp
    show "rt \<noteq> []" by fact
    show "\<forall>j<k. \<exists>b. srv (requests ?w1 @ replicate (Suc j) (refresh_request (storage ?w1) rt))
                    = Response 401 b"
      unfolding st1 app using Suc.prems(3) by auto
    show "settle (refresh_request (storage ?w1) rt)
           (srv (requests ?w1 @ replicate (Suc k) (refresh_request (storage ?w1) rt))) = Inl e"
      unfolding st1 app using Suc.prems(4) .
    show "e \<noteq> AxiosError (refresh_request (storage ?w1) rt) (Some 401)"
      unfolding st1 by fact
  qed
  then have inner': "refreshToken (Suc k + n) srv ?w1 = Some (Inl e, ?wk)"
    by simp
  have rej: "response_rejected (Suc k + n) srv ?R (Some 401) ?w1 =
        Some (Inl e, ?wk\<lparr>storage := removeTokens (storage ?wk), location := ''/login''\<rparr>)"
    using refresh_failure_tears_down [OF refresh_request_unmarked inner'] .
  from Suc.prems(3) have "\<exists>b. srv (requests w @ replicate (Suc 0) ?R) = Response 401 b"
    by blast
  then obtain b where first: "srv (requests w @ [?R]) = Response 401 b"
    by auto
  have fin: "?wk\<lparr>storage := removeTokens (storage ?wk), location := ''/login''\<rparr> =
        w\<lparr>storage := removeTokens (storage w), location := ''/login'',
           requests := requests w @ replicate (Suc (Suc k)) ?R\<rparr>"
    by (simp add: removeTokens_idem)
  have send: "apiClient (Suc (Suc k + n)) srv ?P w =
        Some (Inl e, w\<lparr>storage := removeTokens (storage w), location := ''/login'',
           requests := requests w @ replicate (Suc (Suc k)) ?R\<rparr>)"
    using apiClient_401 [of ?R w ?P srv b "Suc k + n"] R first rej fin by simp
  show ?case
    using send refreshToken_present [OF Suc.prems(1,2), of "Suc (Suc k + n)" srv]
    by (simp del: replicate.simps)
qed

lemma refreshToken_settles:
  assumes "apiClient n srv (post ''/auth/refresh''
             (Some [''refreshToken'' \<mapsto> str_null (storage w ''refreshToken'')])) w = Some x"
  shows "\<exists>y. refreshToken n srv w = Some y"
  using assms
  by (auto simp: refreshToken.simps getItem_def Let_def split: sum.splits option.splits prod.splits)

lemma apiClient_settles:
  assumes no401: "\<forall>l q b. url q = ''/auth/refresh'' \<longrightarrow> srv (l @ [q]) \<noteq> Response 401 b"
  shows "\<exists>x. apiClient (Suc (Suc n)) srv config w = Some x"
proof -
  let ?sent = "request_interceptor (storage w) config"
  let ?w1 = "w\<lparr>requests := requests w @ [?sent]\<rparr>"
  show ?thesis
  proof (cases "\<exists>b. srv (requests w @ [?sent]) = Response 401 b")
    case False
    then show ?thesis
      using apiClient_not_401 [of ?sent w config srv "Suc n"] by simp
  next
    case True
    then obtain b where first: "srv (requests w @ [?sent]) = Response 401 b" ..
    show ?thesis
    proof (cases "retry config")
      case True
      then show ?thesis
        using apiClient_marked [of ?sent w config "Suc n" srv] by simp
    next
      case unmarked: False
      let ?P = "post ''/auth/refresh''
                  (Some [''refreshToken'' \<mapsto> str_null (storage ?w1 ''refreshToken'')])"
      let ?R = "request_interceptor (storage ?w1) ?P"
      have "url ?R = ''/auth/refresh''"
        by (simp add: post_def)
      with no401 have "\<forall>b. srv (requests ?w1 @ [?R]) \<noteq> Response 401 b"
        by blast
      then have "\<exists>x. apiClient (Suc n) srv ?P ?w1 = Some x"
        using apiClient_not_401 [of ?R ?w1 ?P srv n] by simp
      then obtain y where y: "refreshToken (Suc n) srv ?w1 = Some y"
        using refreshToken_settles [of "Suc n" srv ?w1] by blast
      obtain res w2 where yw: "y = (res, w2)"
        by (cases y)
      have "\<exists>x. response_rejected (Suc n) srv ?sent (Some 401) ?w1 = Some x"
      proof (cases res)
        case (Inl e)
        then show ?thesis
          using y yw unmarked refresh_failure_tears_down [of ?sent "Suc n" srv ?w1 e w2]
          by simp
      next
        case (Inr u)
        let ?again = "?sent\<lparr>retry := True,
              Authorization := Some (''Bearer '' @ str_null (storage w2 ''accessToken''))\<rparr>"
        have "response_rejected (Suc n) srv ?sent (Some 401) ?w1 = apiClient (Suc n) srv ?again w2"
          using y yw Inr unmarked refresh_success_retries [of ?sent "Suc n" srv ?w1 u w2]
          by simp
        then show ?thesis
          using apiClient_marked [of "request_interceptor (storage w2) ?again" w2 ?again n srv]
          by simp
      qed
      then show ?thesis
        using apiClient_401 [of ?sent w config srv b "Suc n"] first by simp
    qed
  qed
qed

lemma portfolio_interceptor_same: "portfolio_request_interceptor = request_interceptor"
  by (simp add: fun_eq_iff portfolio_request_interceptor_def request_interceptor_def)

section \<open>Refresh without a refresh token\<close>

text \<open>
  Claim C5. When no refresh token is in storage (\<open>null\<close> or the empty string),
  \<open>authService.refreshToken\<close> fails at once with the error \<open>No refresh token available\<close>
  and leaves the world as it was: no request goes on the wire, for any bound. When the
  refresh was needed because an unmarked request got a 401, the error handler then removes
  both tokens and sets the location to \<open>/login\<close>; the caller gets that error, and the only
  request on the wire is the original one.
\<close>

theorem no_refresh_token_fails_without_call:
  assumes "\<not> truthy (storage w ''refreshToken'')"
  shows "refreshToken n srv w = Some (Inl (Error ''No refresh token available''), w)
    \<and> (\<not> retry config \<and>
        srv (requests w @ [request_interceptor (storage w) config]) = Response 401 b \<longrightarrow>
        apiClient (Suc n) srv config w =
          Some (Inl (Error ''No refresh token available''),
                w\<lparr>storage := removeTokens (storage w), location := ''/login'',
                   requests := requests w @ [request_interceptor (storage w) config]\<rparr>))
    \<and> removeTokens (storage w) ''accessToken'' = None
    \<and> removeTokens (storage w) ''refreshToken'' = None"
proof (intro conjI impI)
  show "removeTokens (storage w) ''accessToken'' = None"
    and "removeTokens (storage w) ''refreshToken'' = None"
    by (simp_all add: removeTokens_cleared)
next
  show "refreshToken n srv w = Some (Inl (Error ''No refresh token available''), w)"
    using assms by (rule refreshToken_absent)
next
  let ?sent = "request_interceptor (storage w) config"
  let ?w1 = "w\<lparr>requests := requests w @ [?sent]\<rparr>"
  assume h: "\<not> retry config \<and> srv (requests w @ [?sent]) = Response 401 b"
  have "refreshToken n srv ?w1 = Some (Inl (Error ''No refresh token available''), ?w1)"
    using assms by (intro refreshToken_absent) simp
  then have "response_rejected n srv ?sent (Some 401) ?w1 =
      Some (Inl (Error ''No refresh token available''),
            ?w1\<lparr>storage := removeTokens (storage ?w1), location := ''/login''\<rparr>)"
    using h by (intro refresh_failure_tears_down) simp_all
  then show "apiClient (Suc n) srv config w =
          Some (Inl (Error ''No refresh token available''),
                w\<lparr>storage := removeTokens (storage w), location := ''/login'',
                   requests := requests w @ [?sent]\<rparr>)"
    using apiClient_401 [of ?sent w config srv b n] h by simp
qed

text \<open>A storage with an access token only, and a backend that answers 401.\<close>

theorem no_refresh_token_fails_without_call_witness:
  "refreshToken 0 (scripted [Response 401 fail_body]) w_no_refresh
     = Some (Inl (Error ''No refresh token available''), w_no_refresh)
   \<and> view (apiClient (Suc 0) (scripted [Response 401 fail_body]) (get ''/portfolios'') w_no_refresh)
     = Some (Inl (Error ''No refresh token available''), (None, None), ''/login'', [portfolios_old])"
  using no_refresh_token_fails_without_call [of w_no_refresh 0 "scripted [Response 401 fail_body]"
      "get ''/portfolios''" fail_body]
  by (simp add: eval_defs)

section \<open>One refresh, one retry\<close>

text \<open>
  Claim C1, amended. Take a request with no retry mark that is answered 401, while a
  non-empty refresh token is stored and the refresh request is answered with a status from
  200 to 299 and a successful envelope that carries data. Then, for every bound above one,
  the call settles, and exactly three requests went on the wire: the original, one refresh
  request, and one retry. The retry is the original with the mark set and with the header
  \<open>Bearer\<close> followed by the access token that is in storage at that moment, the one
  the refresh stored. The call's result is what the retry's answer settles to; when that
  answer is a 401 again, the caller gets this 401 and nothing more is sent, so there is no
  second refresh.
\<close>

theorem refresh_then_retry_once:
  fixes again w'
  defines "again \<equiv> \<lambda>sent d. sent\<lparr>retry := True,
              Authorization := Some (''Bearer '' @ str_undefined (d ''accessToken''))\<rparr>"
  assumes "\<not> retry config"
    and "sent = request_interceptor (storage w) config"
    and "srv (requests w @ [sent]) = Response 401 b1"
    and "storage w ''refreshToken'' = Some rt" and "rt \<noteq> []"
    and "rreq = refresh_request (storage w) rt"
    and "srv (requests w @ [sent, rreq]) = Response st2 b2" and "200 \<le> st2" and "st2 < 300"
    and "success b2" and "data b2 = Some d"
    and "w' = w\<lparr>storage := (storage w)(''accessToken'' \<mapsto> str_undefined (d ''accessToken''),
                                   ''refreshToken'' \<mapsto> str_undefined (d ''refreshToken'')),
                  requests := requests w @ [sent, rreq, again sent d]\<rparr>"
  shows "apiClient (Suc (Suc n)) srv config w = Some (settle (again sent d) (srv (requests w')), w')
     \<and> Authorization (again sent d) = Some (''Bearer '' @ str_null (getItem (storage w') ''accessToken''))
     \<and> (srv (requests w') = Response 401 b3 \<longrightarrow>
          apiClient (Suc (Suc n)) srv config w = Some (Inl (AxiosError (again sent d) (Some 401)), w'))"
proof -
  have flow: "apiClient (Suc (Suc n)) srv config w =
      Some (settle (again sent d) (srv (requests w')), w')"
    by (rule refresh_and_retry_flow [of config sent w srv b1 rt rreq st2 b2 d "again sent d" w' n])
      (use assms in \<open>simp_all add: refresh_request_def\<close>)
  have hdr: "Authorization (again sent d) =
      Some (''Bearer '' @ str_null (getItem (storage w') ''accessToken''))"
    using assms(13) by (simp add: again_def getItem_def str_null_def)
  show ?thesis
    using flow hdr by (simp add: settle_def)
qed

text \<open>A run that meets the hypotheses: 401, a successful refresh, 401 again.\<close>

theorem refresh_then_retry_once_witness:
  "view (apiClient (Suc (Suc 0))
      (scripted [Response 401 fail_body, Response 200 tokens_body, Response 401 fail_body])
      (get ''/portfolios'') w0)
   = Some (Inl (AxiosError portfolios_new (Some 401)),
           (Some ''new'', Some ''r1''), ''/dashboard'',
           [portfolios_old, refresh_old, portfolios_new])"
  using refresh_then_retry_once [of "get ''/portfolios''" portfolios_old w0
      "scripted [Response 401 fail_body, Response 200 tokens_body, Response 401 fail_body]"
      fail_body "''r0''" refresh_old 200 tokens_body
      "[''accessToken'' \<mapsto> ''new'', ''refreshToken'' \<mapsto> ''r1'']" _ 0 fail_body]
  by (simp add: eval_defs)

text \<open>
  The claim as first stated speaks of every unmarked request that gets a 401. With no
  refresh token in storage such a request leads to no refresh request and to no retry:
  the original request is the only one on the wire.
\<close>

theorem refresh_then_retry_counterexample:
  "view (apiClient (Suc (Suc 0)) (scripted [Response 401 fail_body])
      (get ''/portfolios'') w_no_refresh)
   = Some (Inl (Error ''No refresh token available''),
           (None, None), ''/login'', [portfolios_old])"
  by (simp add: eval_defs)

section \<open>A second 401 for the same request\<close>

text \<open>
  Claim C4, amended. A 401 is recovered at most once for a request, by refresh and retry.
  Under the hypotheses of the flow above, when the retry is answered 401 as well, that
  second 401 is handed to the caller as the error of the marked retry, with no further
  refresh. The session is left as the refresh made it: both tokens that the refresh stored
  are still in storage, and the location is not changed, so nothing forces a new login.
\<close>

theorem second_401_returned_to_caller:
  fixes again w'
  defines "again \<equiv> \<lambda>sent d. sent\<lparr>retry := True,
              Authorization := Some (''Bearer '' @ str_undefined (d ''accessToken''))\<rparr>"
  assumes "\<not> retry config"
    and "sent = request_interceptor (storage w) config"
    and "srv (requests w @ [sent]) = Response 401 b1"
    and "storage w ''refreshToken'' = Some rt" and "rt \<noteq> []"
    and "rreq = refresh_request (storage w) rt"
    and "srv (requests w @ [sent, rreq]) = Response st2 b2" and "200 \<le> st2" and "st2 < 300"
    and "success b2" and "data b2 = Some d"
    and "srv (requests w @ [sent, rreq, again sent d]) = Response 401 b3"
    and "w' = w\<lparr>storage := (storage w)(''accessToken'' \<mapsto> str_undefined (d ''accessToken''),
                                   ''refreshToken'' \<mapsto> str_undefined (d ''refreshToken'')),
                  requests := requests w @ [sent, rreq, again sent d]\<rparr>"
  shows "apiClient (Suc (Suc n)) srv config w =
           Some (Inl (AxiosError (again sent d) (Some 401)), w')
     \<and> retry (again sent d)
     \<and> storage w' ''accessToken'' = Some (str_undefined (d ''accessToken''))
     \<and> storage w' ''refreshToken'' = Some (str_undefined (d ''refreshToken''))
     \<and> location w' = location w"
proof -
  have flow: "apiClient (Suc (Suc n)) srv config w =
      Some (settle (again sent d) (srv (requests w')), w')"
    by (rule refresh_and_retry_flow [of config sent w srv b1 rt rreq st2 b2 d "again sent d" w' n])
      (use assms in \<open>simp_all add: refresh_request_def\<close>)
  have "srv (requests w') = Response 401 b3"
    using assms(13,14) by simp
  then have "settle (again sent d) (srv (requests w')) = Inl (AxiosError (again sent d) (Some 401))"
    by (simp add: settle_def)
  with flow show ?thesis
    using assms(14) by (simp add: again_def)
qed

text \<open>The same run as above meets the hypotheses.\<close>

theorem second_401_returned_to_caller_witness:
  "apiClient (Suc (Suc 0))
      (scripted [Response 401 fail_body, Response 200 tokens_body, Response 401 fail_body])
      (get ''/portfolios'') w0
   = Some (Inl (AxiosError portfolios_new (Some 401)),
       w0\<lparr>storage := (storage w0)(''accessToken'' \<mapsto> ''new'', ''refreshToken'' \<mapsto> ''r1''),
          requests := [portfolios_old, refresh_old, portfolios_new]\<rparr>)"
  using second_401_returned_to_caller [of "get ''/portfolios''" portfolios_old w0
      "scripted [Response 401 fail_body, Response 200 tokens_body, Response 401 fail_body]"
      fail_body "''r0''" refresh_old 200 tokens_body
      "[''accessToken'' \<mapsto> ''new'', ''refreshToken'' \<mapsto> ''r1'']" fail_body _ 0]
  by (simp add: eval_defs)

text \<open>
  After the second 401 the tokens \<open>new\<close> and \<open>r1\<close> are in storage and the location is
  still \<open>/dashboard\<close>: the tokens were not cleared and there was no redirect to
  \<open>/login\<close>.
\<close>

theorem second_401_keeps_session:
  "view (apiClient (Suc (Suc 0))
      (scripted [Response 401 fail_body, Response 200 tokens_body, Response 401 fail_body])
      (get ''/portfolios'') w0)
   = Some (Inl (AxiosError portfolios_new (Some 401)),
           (Some ''new'', Some ''r1''), ''/dashboard'',
           [portfolios_old, refresh_old, portfolios_new])
   \<and> (Some ''new'', Some ''r1'') \<noteq> (None, None) \<and> ''/dashboard'' \<noteq> ''/login''"
  by (simp add: eval_defs)

section \<open>A refresh that fails\<close>

text \<open>
  When the refresh request is rejected, by a network failure or by a status outside 200
  to 299 other than 401, the error handler removes both tokens, sets the location to
  \<open>/login\<close>, and hands the refresh's error to the caller of the original request.
\<close>

lemma refresh_rejection_tears_down:
  assumes "\<not> retry config"
    and "sent = request_interceptor (storage w) config"
    and "srv (requests w @ [sent]) = Response 401 b1"
    and "storage w ''refreshToken'' = Some rt" and "rt \<noteq> []"
    and "rreq = refresh_request (storage w) rt"
    and "settle rreq (srv (requests w @ [sent, rreq])) = Inl e"
    and "e \<noteq> AxiosError rreq (Some 401)"
  shows "apiClient (Suc (Suc n)) srv config w =
     Some (Inl e, w\<lparr>storage := removeTokens (storage w), location := ''/login'',
                    requests := requests w @ [sent, rreq]\<rparr>)"
proof -
  let ?w1 = "w\<lparr>requests := requests w @ [sent]\<rparr>"
  have "refreshToken (Suc 0 + n) srv ?w1 =
      Some (Inl e, if (0::nat) = 0
        then ?w1\<lparr>requests := requests ?w1 @ replicate (Suc 0) (refresh_request (storage ?w1) rt)\<rparr>
        else ?w1\<lparr>storage := removeTokens (storage ?w1), location := ''/login'',
           requests := requests ?w1 @ replicate (Suc 0) (refresh_request (storage ?w1) rt)\<rparr>)"
    by (rule nested_refresh_chain) (use assms in simp_all)
  then have "refreshToken (Suc n) srv ?w1 =
      Some (Inl e, w\<lparr>requests := requests w @ [sent, rreq]\<rparr>)"
    using assms(6) by simp
  then have "response_rejected (Suc n) srv sent (Some 401) ?w1 =
      Some (Inl e, w\<lparr>storage := removeTokens (storage w), location := ''/login'',
                    requests := requests w @ [sent, rreq]\<rparr>)"
    using assms(1,2) refresh_failure_tears_down [of sent "Suc n" srv ?w1 e
        "w\<lparr>requests := requests w @ [sent, rreq]\<rparr>"]
    by simp
  then show ?thesis
    using apiClient_401 [of sent w config srv b1 "Suc n"] assms(2,3) by simp
qed

text \<open>
  Claim C2, at an input where the code departs from it. The backend answers the original
  request 401, the refresh request 200 with an envelope whose \<open>success\<close> is false, and
  the retry 401. \<open>authService.refreshToken\<close> has no branch for the unsuccessful envelope
  and resolves, so nothing is torn down: both old tokens stay in storage, the location
  stays \<open>/dashboard\<close>, the original request is retried with the old token, and the caller
  gets the retry's 401 and no refresh error. \<open>authService.getProfile\<close> throws on the same
  test of the envelope.
\<close>

theorem unsuccessful_refresh_envelope_goes_unnoticed:
  "view (apiClient (Suc (Suc 0))
      (scripted [Response 401 fail_body, Response 200 fail_body, Response 401 fail_body])
      (get ''/portfolios'') w0)
   = Some (Inl (AxiosError (portfolios_old\<lparr>retry := True\<rparr>) (Some 401)),
           (Some ''old'', Some ''r0''), ''/dashboard'',
           [portfolios_old, refresh_old, portfolios_old\<lparr>retry := True\<rparr>])"
  by (simp add: eval_defs)

section \<open>Bearer token on outgoing requests\<close>

text \<open>
  When an access token is in storage, a request leaves the request interceptor with the
  header \<open>Authorization: Bearer token\<close> for that token, whatever the configuration was.
  When no access token is in storage, the interceptor adds no header: a request built by
  \<open>get\<close> or \<open>post\<close> leaves without an \<open>Authorization\<close> header. A stored empty string is
  falsy in the source and counts as no token.
\<close>

lemma bearer_header_attached:
  "(ls ''accessToken'' = Some t \<and> t \<noteq> [] \<longrightarrow>
      Authorization (request_interceptor ls config) = Some (''Bearer '' @ t))
   \<and> (\<not> truthy (ls ''accessToken'') \<longrightarrow>
      request_interceptor ls config = config
      \<and> Authorization (request_interceptor ls (get u)) = None
      \<and> Authorization (request_interceptor ls (post u d)) = None)"
  by (simp add: request_interceptor_def getItem_def truthy_def str_null_def get_def post_def)

text \<open>The portfolio client puts on the wire what the request interceptor returns, for
  every configuration and answer; the auth client does so in each step of \<open>apiClient\<close>.\<close>

lemma portfolio_client_sends_intercepted:
  "requests (snd (portfolio_apiClient srv config w)) =
     requests w @ [request_interceptor (storage w) config]"
  by (simp add: portfolio_apiClient_def portfolio_interceptor_same Let_def
        split: http_response.splits)


section \<open>A 401 for the refresh request itself\<close>

text \<open>
  Claim C10. The refresh request goes through the same client and has no retry mark.
  So when it is answered 401, the error handler does not reject it but calls
  \<open>authService.refreshToken\<close> again, which sends a further refresh request, again
  unmarked. If the backend answers the first \<open>k\<close> refresh requests with 401 and the next
  one with a rejection \<open>e\<close> that is not a 401, one call of \<open>refreshToken\<close> puts exactly
  \<open>k + 1\<close> refresh requests on the wire before it fails with \<open>e\<close>, for every \<open>k\<close>: the
  mark of one request does not bound them.
\<close>

theorem refresh_401_nests_refresh:
  assumes "storage w ''refreshToken'' = Some rt" and "rt \<noteq> []"
    and "\<forall>j<k. \<exists>b. srv (requests w @ replicate (Suc j) (refresh_request (storage w) rt))
                    = Response 401 b"
    and "settle (refresh_request (storage w) rt)
           (srv (requests w @ replicate (Suc k) (refresh_request (storage w) rt))) = Inl e"
    and "e \<noteq> AxiosError (refresh_request (storage w) rt) (Some 401)"
  shows "\<exists>w'. refreshToken (Suc k + n) srv w = Some (Inl e, w')
     \<and> requests w' = requests w @ replicate (Suc k) (refresh_request (storage w) rt)
     \<and> url (refresh_request (storage w) rt) = ''/auth/refresh''
     \<and> \<not> retry (refresh_request (storage w) rt)"
  using nested_refresh_chain [OF assms, of n]
  by (simp add: refresh_request_unmarked refresh_request_def post_def)

text \<open>Two 401 answers and then a 500: three refresh requests.\<close>

theorem refresh_401_nests_refresh_witness:
  "view (refreshToken (Suc (Suc (Suc 0)))
      (scripted [Response 401 fail_body, Response 401 fail_body, Response 500 fail_body]) w0)
   = Some (Inl (AxiosError refresh_old (Some 500)), (None, None), ''/login'',
           [refresh_old, refresh_old, refresh_old])"
  using refresh_401_nests_refresh [of w0 "''r0''" 2
      "scripted [Response 401 fail_body, Response 401 fail_body, Response 500 fail_body]"
      "AxiosError refresh_old (Some 500)" 0]
  by (simp add: eval_defs)

text \<open>Against a backend that answers every request 401, the refresh never settles,
  whatever the bound.\<close>

lemma refresh_never_settles:
  assumes "\<forall>l. \<exists>b. srv l = Response 401 b"
  shows "truthy (storage w ''refreshToken'') \<Longrightarrow> refreshToken n srv w = None"
proof (induction n arbitrary: w)
  case 0
  then show ?case by (simp add: refreshToken.simps apiClient.simps getItem_def)
next
  case (Suc n)
  from Suc.prems obtain rt where rt: "storage w ''refreshToken'' = Some rt" "rt \<noteq> []"
    by (auto simp: truthy_def split: option.splits)
  let ?P = "post ''/auth/refresh'' (Some [''refreshToken'' \<mapsto> rt])"
  let ?R = "refresh_request (storage w) rt"
  let ?w1 = "w\<lparr>requests := requests w @ [?R]\<rparr>"
  have R: "?R = request_interceptor (storage w) ?P"
    by (simp add: refresh_request_def)
  from assms obtain b where first: "srv (requests w @ [?R]) = Response 401 b"
    by blast
  have "truthy (storage ?w1 ''refreshToken'')"
    using Suc.prems by simp
  then have "refreshToken n srv ?w1 = None"
    by (rule Suc.IH)
  then have "response_rejected n srv ?R (Some 401) ?w1 = None"
    by (simp add: response_rejected.simps refresh_request_unmarked)
  then have "apiClient (Suc n) srv ?P w = None"
    using apiClient_401 [of ?R w ?P srv b n] R first by simp
  then show ?case
    using refreshToken_present [OF rt, of "Suc n" srv] by simp
qed

section \<open>Logout\<close>

text \<open>
  \<open>AuthProvider\<close>'s \<open>logout\<close> sets the user to \<open>null\<close> in every case. Whatever the
  backend call \<open>POST /auth/logout\<close> settles to, a response or an error, the service's
  \<open>logout\<close> ends with both tokens removed from storage; the error is not passed on.
  The call does settle, within a bound of two, whenever the backend never answers a
  refresh request with 401.
\<close>

lemma logout_clears_tokens_when_settled:
  "snd (AuthProvider_logout n srv (w, s)) = s\<lparr>user := None\<rparr>
   \<and> user (snd (AuthProvider_logout n srv (w, s))) = None
   \<and> (apiClient n srv (post ''/auth/logout'' None) w = Some (r, w1) \<longrightarrow>
        fst (AuthProvider_logout n srv (w, s)) = Some (w1\<lparr>storage := removeTokens (storage w1)\<rparr>)
        \<and> removeTokens (storage w1) ''accessToken'' = None
        \<and> removeTokens (storage w1) ''refreshToken'' = None)
   \<and> ((\<forall>l q b. url q = ''/auth/refresh'' \<longrightarrow> srv (l @ [q]) \<noteq> Response 401 b) \<longrightarrow>
        (\<exists>w'. fst (AuthProvider_logout (Suc (Suc n)) srv (w, s)) = Some w'
            \<and> storage w' ''accessToken'' = None \<and> storage w' ''refreshToken'' = None))"
proof (intro conjI impI)
  show "snd (AuthProvider_logout n srv (w, s)) = s\<lparr>user := None\<rparr>"
    by (simp add: AuthProvider_logout_def)
  then show "user (snd (AuthProvider_logout n srv (w, s))) = None"
    by simp
next
  assume "apiClient n srv (post ''/auth/logout'' None) w = Some (r, w1)"
  then show "fst (AuthProvider_logout n srv (w, s)) =
      Some (w1\<lparr>storage := removeTokens (storage w1)\<rparr>)"
    by (cases r) (simp_all add: AuthProvider_logout_def logout_def)
next
  show "removeTokens (storage w1) ''accessToken'' = None"
    and "removeTokens (storage w1) ''refreshToken'' = None"
    by (simp_all add: removeTokens_cleared)
next
  assume "\<forall>l q b. url q = ''/auth/refresh'' \<longrightarrow> srv (l @ [q]) \<noteq> Response 401 b"
  then obtain x where "apiClient (Suc (Suc n)) srv (post ''/auth/logout'' None) w = Some x"
    using apiClient_settles [of srv n "post ''/auth/logout'' None" w] by blast
  then show "\<exists>w'. fst (AuthProvider_logout (Suc (Suc n)) srv (w, s)) = Some w'
            \<and> storage w' ''accessToken'' = None \<and> storage w' ''refreshToken'' = None"
    by (cases x; cases "fst x")
      (simp_all add: AuthProvider_logout_def logout_def removeTokens_cleared)
qed

text \<open>
  Against a backend that answers every request 401, a call for an unmarked request never
  settles while a refresh token is stored: its 401 starts a refresh, and the refresh
  never settles.
\<close>

lemma apiClient_never_settles:
  assumes all401: "\<forall>l. \<exists>b. srv l = Response 401 b"
    and stored: "truthy (storage w ''refreshToken'')"
    and unmarked: "\<not> retry config"
  shows "apiClient n srv config w = None"
proof (cases n)
  case 0
  then show ?thesis by (simp add: apiClient.simps)
next
  case (Suc m)
  let ?sent = "request_interceptor (storage w) config"
  let ?w1 = "w\<lparr>requests := requests w @ [?sent]\<rparr>"
  from all401 obtain b where first: "srv (requests w @ [?sent]) = Response 401 b"
    by blast
  have "truthy (storage ?w1 ''refreshToken'')"
    using stored by simp
  then have "refreshToken m srv ?w1 = None"
    by (rule refresh_never_settles [OF all401])
  then have "response_rejected m srv ?sent (Some 401) ?w1 = None"
    using unmarked by (simp add: response_rejected.simps)
  then show ?thesis
    using apiClient_401 [of ?sent w config srv b m] first Suc by simp
qed

text \<open>
  Claim C6, at an input where the code departs from it. Both tokens are in storage and
  the backend answers every request 401, as it does once both tokens have expired. The
  logout request gets a 401, the error handler starts a refresh, the refresh request
  gets a 401 and, being unmarked, starts a further refresh, and so on (the nesting of
  the section above). For every bound the service's \<open>logout\<close> has not settled: its
  \<open>finally\<close> block is not reached and the tokens are not removed. \<open>AuthProvider\<close> has
  set the user to \<open>null\<close> all the same.
\<close>

theorem logout_never_clears_on_401:
  "logout n always_401 w0 = None
   \<and> fst (AuthProvider_logout n always_401 (w0, s)) = None
   \<and> user (snd (AuthProvider_logout n always_401 (w0, s))) = None"
proof -
  have "apiClient n always_401 (post ''/auth/logout'' None) w0 = None"
    by (rule apiClient_never_settles)
      (simp_all add: always_401_def w0_def truthy_def post_def)
  then show ?thesis
    by (simp add: logout_def AuthProvider_logout_def)
qed

section \<open>Start of the application\<close>

text \<open>
  Claim C8. When \<open>AuthProvider\<close> mounts and no access token is in storage, \<open>initializeAuth\<close>
  ends with the user \<open>null\<close> and \<open>loading\<close> false, for any bound and any backend, and
  the world is as before: no request was sent, so the profile endpoint was not called.
\<close>

theorem startup_without_token_is_anonymous:
  assumes "\<not> truthy (storage w ''accessToken'')"
  shows "initializeAuth n srv (w, initial_auth_state) = Some (w, \<lparr>user = None, loading = False\<rparr>)"
  using assms
  by (simp add: initializeAuth_def initial_auth_state_def getAccessToken_def getItem_def)

text \<open>An empty storage; the bound zero allows no request at all.\<close>

theorem startup_without_token_is_anonymous_witness:
  "initializeAuth 0 (scripted []) (w_anonymous, initial_auth_state)
     = Some (w_anonymous, \<lparr>user = None, loading = False\<rparr>)
   \<and> requests w_anonymous = []"
  using startup_without_token_is_anonymous [of w_anonymous 0 "scripted []"]
  by (simp add: w_anonymous_def truthy_def)

text \<open>
  When \<open>AuthProvider\<close> mounts, an access token is in storage, and
  \<open>authService.getProfile\<close> settles with an error, \<open>initializeAuth\<close> removes both tokens
  and ends with the user \<open>null\<close> and \<open>loading\<close> false.
\<close>

lemma startup_profile_failure_when_settled:
  assumes "truthy (storage w ''accessToken'')"
    and "getProfile n srv w = Some (Inl e, w1)"
  shows "initializeAuth n srv (w, initial_auth_state) =
           Some (w1\<lparr>storage := removeTokens (storage w1)\<rparr>, \<lparr>user = None, loading = False\<rparr>)
     \<and> removeTokens (storage w1) ''accessToken'' = None
     \<and> removeTokens (storage w1) ''refreshToken'' = None"
  using assms
  by (simp add: initializeAuth_def initial_auth_state_def getAccessToken_def getItem_def
        removeTokens_cleared)

text \<open>The profile request is answered 200 with an unsuccessful envelope, so
  \<open>getProfile\<close> throws, and the start ends without tokens.\<close>

lemma startup_profile_failure_example:
  "initializeAuth (Suc 0) (scripted [Response 200 fail_body]) (w0, initial_auth_state)
     = Some (w0\<lparr>storage := removeTokens (storage w0), requests := [profile_old]\<rparr>,
             \<lparr>user = None, loading = False\<rparr>)"
  by (simp add: eval_defs getProfile_def initializeAuth_def initial_auth_state_def
        getAccessToken_def)

text \<open>
  Claim C9, at an input where the code departs from it. Both tokens are in storage and
  the backend answers every request 401, as it does once both tokens have expired. The
  profile request fails with a 401, the error handler starts a refresh, and the refresh
  requests nest without end as in the logout above. For every bound \<open>getProfile\<close> has not
  settled, so \<open>initializeAuth\<close> reaches neither its \<open>catch\<close> nor its \<open>finally\<close>: the
  tokens are not removed and \<open>loading\<close> is not set to false.
\<close>

theorem startup_never_resolves_on_401:
  "getProfile n always_401 w0 = None
   \<and> initializeAuth n always_401 (w0, initial_auth_state) = None"
proof -
  have "apiClient n always_401 (get ''/auth/profile'') w0 = None"
    by (rule apiClient_never_settles)
      (simp_all add: always_401_def w0_def truthy_def get_def)
  then have "getProfile n always_401 w0 = None"
    by (simp add: getProfile_def)
  then show ?thesis
    by (simp add: initializeAuth_def getAccessToken_def getItem_def w0_def truthy_def)
qed

section \<open>The portfolio client against the auth client\<close>

text \<open>
  Claim C3, amended. The portfolio service's client attaches the bearer token exactly as
  the auth service's client does, but it has no response interceptor: a 401 goes to the
  caller as it is, after the one request, with no refresh and no retry, and the stored
  tokens and the location are not touched. Only the auth service's client does the
  refresh and the retry.
\<close>

theorem portfolio_client_passes_401:
  "portfolio_request_interceptor ls config = request_interceptor ls config
   \<and> (srv (requests w @ [request_interceptor (storage w) config]) = Response 401 b \<longrightarrow>
        portfolio_apiClient srv config w =
          (Inl (AxiosError (request_interceptor (storage w) config) (Some 401)),
           w\<lparr>requests := requests w @ [request_interceptor (storage w) config]\<rparr>))"
  by (simp add: portfolio_interceptor_same portfolio_apiClient_def Let_def)

text \<open>The portfolio client against a backend whose first answer is a 401.\<close>

theorem portfolio_client_passes_401_witness:
  "portfolio_apiClient
      (scripted [Response 401 fail_body, Response 200 tokens_body, Response 200 list_body])
      (get ''/portfolios'') w0
   = (Inl (AxiosError portfolios_old (Some 401)), w0\<lparr>requests := [portfolios_old]\<rparr>)"
  using portfolio_client_passes_401 [of "storage w0" "get ''/portfolios''"
      "scripted [Response 401 fail_body, Response 200 tokens_body, Response 200 list_body]"
      w0 fail_body]
  by (simp add: eval_defs)

text \<open>
  The same request, state and backend through both clients: the portfolio client fails
  with the 401 after one request; the auth client refreshes, retries and returns the
  data after three.
\<close>

theorem portfolio_client_differs_on_401:
  "view (Some (portfolio_apiClient
      (scripted [Response 401 fail_body, Response 200 tokens_body, Response 200 list_body])
      (get ''/portfolios'') w0))
   = Some (Inl (AxiosError portfolios_old (Some 401)),
           (Some ''old'', Some ''r0''), ''/dashboard'', [portfolios_old])
   \<and> view (apiClient (Suc (Suc 0))
      (scripted [Response 401 fail_body, Response 200 tokens_body, Response 200 list_body])
      (get ''/portfolios'') w0)
   = Some (Inr list_body,
           (Some ''new'', Some ''r1''), ''/dashboard'',
           [portfolios_old, refresh_old, portfolios_new])"
  by (simp add: eval_defs portfolio_apiClient_def portfolio_request_interceptor_def)

end
